theory Spec2Isabelle
  imports Complex_Main
begin

section \<open>JavaScript values used by join-pdf\<close>

text \<open>
  A JavaScript \<^verbatim>\<open>number\<close> is a double: a finite value, one of the two infinities, or
  NaN. A finite value is written as the rational it is. Where the program computes a
  number from an integer (parsing a digit string, incrementing the loop counter) the
  result is that integer rounded to the nearest double, as \<open>toNumber\<close> has it.
\<close>

datatype number = Fin rat | PInf | NInf | NaN

text \<open>The comparisons \<^verbatim>\<open>a < b\<close>, \<^verbatim>\<open>a > b\<close> and \<^verbatim>\<open>a <= b\<close>; each is false when a side is NaN.\<close>

fun num_lt :: "number \<Rightarrow> number \<Rightarrow> bool" where
  "num_lt (Fin a) (Fin b) = (a < b)"
| "num_lt (Fin a) PInf = True"
| "num_lt NInf (Fin b) = True"
| "num_lt NInf PInf = True"
| "num_lt _ _ = False"

definition num_gt :: "number \<Rightarrow> number \<Rightarrow> bool" where
  "num_gt a b = num_lt b a"

fun num_le :: "number \<Rightarrow> number \<Rightarrow> bool" where
  "num_le (Fin a) (Fin b) = (a \<le> b)"
| "num_le (Fin a) PInf = True"
| "num_le NInf (Fin b) = True"
| "num_le NInf PInf = True"
| "num_le PInf PInf = True"
| "num_le NInf NInf = True"
| "num_le _ _ = False"

text \<open>
  A small non-negative integer (an array index, a page count, a literal of the program) as
  a number; such integers are doubles.
\<close>

definition ofNat :: "nat \<Rightarrow> number" where
  "ofNat n = Fin (of_nat n)"

text \<open>
  The double nearest to a natural number: below \<open>2^53\<close> the number itself; above, the
  53 leading bits, rounded to nearest with ties to the even significand. \<open>shiftOf n\<close> is
  the number of low bits that do not fit. A result of \<open>2^1024\<close> or more is Infinity.
\<close>

function shiftOf :: "nat \<Rightarrow> nat" where
  "shiftOf n = (if n < 2 ^ 53 then 0 else Suc (shiftOf (n div 2)))"
  by pat_completeness auto
termination
  by (relation "measure (\<lambda>n. n)") auto

declare shiftOf.simps [simp del]

definition roundNat :: "nat \<Rightarrow> nat" where
  "roundNat n =
     (if n < 2 ^ 53 then n
      else
        (let e = shiftOf n; q = n div 2 ^ e; r = n mod 2 ^ e; h = 2 ^ (e - 1)
         in (if r < h \<or> (r = h \<and> even q) then q else q + 1) * 2 ^ e))"

definition toNumber :: "nat \<Rightarrow> number" where
  "toNumber n = (if roundNat n < 2 ^ 1024 then Fin (of_nat (roundNat n)) else PInf)"

text \<open>
  \<^verbatim>\<open>p++\<close> on the loop counter of \<^verbatim>\<open>parsePages\<close>: the sum \<open>p + 1\<close>, rounded to a double.
  The counter starts at a parsed digit string, so it is a non-negative integer or
  Infinity; the other numbers are listed for completeness.
\<close>

fun increment :: "number \<Rightarrow> number" where
  "increment (Fin r) =
     (if 0 \<le> r \<and> of_int \<lfloor>r\<rfloor> = r then toNumber (nat \<lfloor>r\<rfloor> + 1) else Fin (r + 1))"
| "increment n = n"

text \<open>
  The subtraction \<^verbatim>\<open>pageNum - 1\<close>, applied to a page number that passed the bounds test:
  a number from 1 to the page count, where the difference is exact.
\<close>

fun num_pred :: "number \<Rightarrow> number" where
  "num_pred (Fin r) = Fin (r - 1)"
| "num_pred n = n"

text \<open>
  Element access \<^verbatim>\<open>xs[n]\<close> on an array: a number addresses an element only when it is
  a non-negative integer below the length; every other access yields \<^verbatim>\<open>undefined\<close>,
  here \<open>None\<close>.
\<close>

definition arrIndex :: "number \<Rightarrow> nat option" where
  "arrIndex n =
     (case n of
        Fin r \<Rightarrow> if 0 \<le> r \<and> of_int \<lfloor>r\<rfloor> = r then Some (nat \<lfloor>r\<rfloor>) else None
      | _ \<Rightarrow> None)"

definition arrGet :: "'a list \<Rightarrow> number \<Rightarrow> 'a option" where
  "arrGet xs n =
     (case arrIndex n of
        None \<Rightarrow> None
      | Some k \<Rightarrow> if k < length xs then Some (xs ! k) else None)"

text \<open>
  An array holds at most \<open>2^32 - 1\<close> elements: the \<^verbatim>\<open>push\<close> that would exceed it raises a
  RangeError. This is the limit of the language; the memory of the machine is not
  modelled.
\<close>

definition maxArrayLength :: nat where
  "maxArrayLength = 4294967295"

text \<open>
  Exceptions: \<^verbatim>\<open>Error\<close>, \<^verbatim>\<open>TypeError\<close> and \<^verbatim>\<open>RangeError\<close>, each with its message. The
  program writes the messages of its own errors; the others are those Node prints.
\<close>

datatype exn = Error string | TypeError string | RangeError string

fun message :: "exn \<Rightarrow> string" where
  "message (Error m) = m"
| "message (TypeError m) = m"
| "message (RangeError m) = m"

section \<open>Strings\<close>

text \<open>
  Strings are sequences of code units below 256. \<^verbatim>\<open>\d\<close> is an ASCII digit; \<^verbatim>\<open>\s\<close> and
  \<^verbatim>\<open>trim\<close> know the white space and line terminators of that range: TAB, LF, VT, FF,
  CR, SPACE and NBSP.
\<close>

definition is_digit :: "char \<Rightarrow> bool" where
  "is_digit c = (c \<in> set ''0123456789'')"

definition is_space :: "char \<Rightarrow> bool" where
  "is_space c = (c \<in> set [CHR 0x09, CHR 0x0A, CHR 0x0B, CHR 0x0C, CHR 0x0D, CHR 0x20, CHR 0xA0])"

definition digit_val :: "char \<Rightarrow> nat" where
  "digit_val c = of_char c - 48"

definition digit_char :: "nat \<Rightarrow> char" where
  "digit_char n = ''0123456789'' ! n"

text \<open>The integer a string of digits denotes.\<close>

definition digitsValue :: "string \<Rightarrow> nat" where
  "digitsValue s = foldl (\<lambda>acc c. 10 * acc + digit_val c) 0 s"

text \<open>
  \<^verbatim>\<open>parseInt(s, 10)\<close> on a string of digits (the only strings the program passes): the
  integer the digits denote, as a number. (For more than 20 significant digits the
  language lets an engine approximate before rounding; Node rounds the exact integer.)
\<close>

definition parseInt :: "string \<Rightarrow> number" where
  "parseInt s = toNumber (digitsValue s)"

text \<open>\<^verbatim>\<open>String.prototype.trim\<close>.\<close>

definition trim :: "string \<Rightarrow> string" where
  "trim s = rev (dropWhile is_space (rev (dropWhile is_space s)))"

text \<open>Decimal rendering of a non-negative integer, as a template literal inserts it.\<close>

fun show_nat :: "nat \<Rightarrow> string" where
  "show_nat n = (if n < 10 then [digit_char n] else show_nat (n div 10) @ [digit_char (n mod 10)])"

declare show_nat.simps [simp del]

text \<open>
  \<^verbatim>\<open>Number.prototype.toString\<close>, which a template literal applies to a number. An integer
  of magnitude below \<open>10^21\<close> prints in decimal. The digits printed for any other finite
  number (a fraction, or an integer from \<open>10^21\<close> on, which prints in exponent notation)
  depend on its double representation, so that rendering is the parameter \<open>fmt\<close>.
\<close>

fun numberToString :: "(rat \<Rightarrow> string) \<Rightarrow> number \<Rightarrow> string" where
  "numberToString fmt (Fin r) =
     (if of_int \<lfloor>r\<rfloor> = r \<and> \<bar>r\<bar> < 10 ^ 21
      then (if r < 0 then CHR ''-'' # show_nat (nat (- \<lfloor>r\<rfloor>)) else show_nat (nat \<lfloor>r\<rfloor>))
      else fmt r)"
| "numberToString fmt PInf = ''Infinity''"
| "numberToString fmt NInf = ''-Infinity''"
| "numberToString fmt NaN = ''NaN''"

section \<open>join-pdf.ts: the page-range parser\<close>

text \<open>A page specifier, \<^verbatim>\<open>number | string\<close>.\<close>

datatype pagespec = PNum number | PStr string

text \<open>
  The match of \<^verbatim>\<open>/^(\d+)\s*-\s*(\d+)$/\<close>, returning the two groups. Digits, white space
  and the hyphen are disjoint classes, so the greedy left-to-right scan decides the match.
\<close>

definition matchRange :: "string \<Rightarrow> (string \<times> string) option" where
  "matchRange s =
     (let g1 = takeWhile is_digit s;
          r1 = dropWhile is_space (dropWhile is_digit s)
      in case r1 of
           [] \<Rightarrow> None
         | c # r2 \<Rightarrow>
             if g1 \<noteq> [] \<and> c = CHR ''-'' then
               (let r3 = dropWhile is_space r2;
                    g2 = takeWhile is_digit r3
                in if g2 \<noteq> [] \<and> dropWhile is_digit r3 = [] then Some (g1, g2) else None)
             else None)"

text \<open>
  The loop \<^verbatim>\<open>for (let p = start; p <= end; p++) pages.push(p)\<close>. The counter is a double:
  from \<open>2^53\<close> on, \<^verbatim>\<open>p++\<close> may leave it unchanged, and the loop then pushes until the array
  is full.
\<close>

function pagesLoop :: "number \<Rightarrow> number \<Rightarrow> number list \<Rightarrow> exn + number list" where
  "pagesLoop p e acc =
     (if num_le p e then
        (if length acc < maxArrayLength then pagesLoop (increment p) e (acc @ [p])
         else Inl (RangeError ''Invalid array length''))
      else Inr acc)"
  by pat_completeness auto
termination
  by (relation "measure (\<lambda>(p, e, acc). maxArrayLength - length acc)") auto

declare pagesLoop.simps [simp del]

definition parsePages :: "pagespec \<Rightarrow> exn + number list" where
  \<open>parsePages pg =
     (case pg of
        PNum n \<Rightarrow> Inr [n]
      | PStr s \<Rightarrow>
          (case matchRange (trim s) of
             None \<Rightarrow> Inl (Error (''Invalid page range format: "'' @ s @ ''"''))
           | Some (g1, g2) \<Rightarrow>
               (let start = parseInt g1; end = parseInt g2
                in if num_gt start end
                   then Inl (Error (''Invalid range: start > end ('' @ s @ '')''))
                   else pagesLoop start end [])))\<close>

section \<open>join-pdf.ts: data model\<close>

text \<open>
  The interfaces of the module, each field at its declared type. An optional field is an
  option: \<open>None\<close> is \<^verbatim>\<open>undefined\<close>, so \<open>pdf item = None\<close> is the case
  \<^verbatim>\<open>typeof item.pdf !== "number"\<close> and \<open>blank item = Some True\<close> the case of a truthy
  \<^verbatim>\<open>item.blank\<close>. \<^verbatim>\<open>usedPages\<close>, a \<^verbatim>\<open>Record<number, number>\<close>, is a map keyed by the
  page number.
\<close>

record PdfInfo =
  pfile :: string
  pages :: nat

record JoinItem =
  pdf :: "number option"
  page :: "pagespec option"
  blank :: "bool option"

record UsageRec =
  ufile :: string
  totalPages :: nat
  usedPages :: "number \<rightharpoonup> nat"

record TestResult =
  errors :: "string list"
  usage :: "UsageRec list"

text \<open>
  Reading a file and loading it with the PDF library either raises or yields a document;
  the program reads only the page count of a document. A loaded document is known by the
  file it came from and that count.
\<close>

type_synonym loader = "string \<Rightarrow> exn + nat"

record PDFDocument =
  source :: string
  pageCount :: nat

text \<open>
  The PDF library (pdf-lib) is the program's collaborator. The output document is the
  sequence of pages added to it: \<^verbatim>\<open>outPdf.addPage()\<close> adds a blank page,
  \<^verbatim>\<open>outPdf.addPage(copiedPage)\<close> a page copied from a source document, known by that
  document and its 0-based index.
\<close>

datatype outpage = BlankPage | CopiedPage PDFDocument nat

text \<open>
  \<^verbatim>\<open>outPdf.copyPages(srcPdf, [k])\<close> reads the page at index \<open>k\<close> of \<^verbatim>\<open>srcPdf.getPages()\<close> and
  copies it. Where \<open>k\<close> is not the index of a page, that element is \<^verbatim>\<open>undefined\<close> and reading
  its \<^verbatim>\<open>node\<close> raises a TypeError.
\<close>

definition copyPages :: "PDFDocument \<Rightarrow> number \<Rightarrow> exn + outpage" where
  "copyPages srcPdf k =
     (case arrIndex k of
        None \<Rightarrow> Inl (TypeError ''Cannot read properties of undefined (reading 'node')'')
      | Some i \<Rightarrow>
          if i < pageCount srcPdf then Inr (CopiedPage srcPdf i)
          else Inl (TypeError ''Cannot read properties of undefined (reading 'node')''))"

text \<open>
  \<^verbatim>\<open>outPdf.save()\<close>: the pages of the saved document. The library adds one blank page to a
  document that has none before it writes it.
\<close>

definition save :: "outpage list \<Rightarrow> outpage list" where
  "save out = (if out = [] then [BlankPage] else out)"

section \<open>join-pdf.ts: listPdfs\<close>

fun listPdfsLoop :: "loader \<Rightarrow> string list \<Rightarrow> PdfInfo list \<Rightarrow> exn + PdfInfo list" where
  "listPdfsLoop ld [] result = Inr result"
| "listPdfsLoop ld (f # fs) result =
     (case ld f of
        Inl e \<Rightarrow> Inl e
      | Inr n \<Rightarrow> listPdfsLoop ld fs (result @ [\<lparr>pfile = f, pages = n\<rparr>]))"

definition listPdfs :: "loader \<Rightarrow> string list \<Rightarrow> exn + PdfInfo list" where
  "listPdfs ld pdfs = listPdfsLoop ld pdfs []"

section \<open>join-pdf.ts: join\<close>

fun loadLoop :: "loader \<Rightarrow> string list \<Rightarrow> PDFDocument list \<Rightarrow> exn + PDFDocument list" where
  "loadLoop ld [] loadedPdfs = Inr loadedPdfs"
| "loadLoop ld (f # fs) loadedPdfs =
     (case ld f of
        Inl e \<Rightarrow> Inl e
      | Inr n \<Rightarrow> loadLoop ld fs (loadedPdfs @ [\<lparr>source = f, pageCount = n\<rparr>]))"

text \<open>The inner loop over \<^verbatim>\<open>pagesToCopy\<close>; \<open>pdfNum\<close> is \<^verbatim>\<open>item.pdf\<close>.\<close>

fun copyLoop ::
  "(rat \<Rightarrow> string) \<Rightarrow> number \<Rightarrow> PDFDocument \<Rightarrow> number list \<Rightarrow> outpage list \<Rightarrow> exn + outpage list"
where
  "copyLoop fmt pdfNum srcPdf [] out = Inr out"
| "copyLoop fmt pdfNum srcPdf (pageNum # rest) out =
     (if num_lt pageNum (ofNat 1) \<or> num_gt pageNum (ofNat (pageCount srcPdf)) then
        Inl (Error (''joinList requests page '' @ numberToString fmt pageNum @ '' from pdf[''
              @ numberToString fmt pdfNum @ ''] which has only '' @ show_nat (pageCount srcPdf)
              @ '' pages''))
      else
        (case copyPages srcPdf (num_pred pageNum) of
           Inl e \<Rightarrow> Inl e
         | Inr copiedPage \<Rightarrow> copyLoop fmt pdfNum srcPdf rest (out @ [copiedPage])))"

text \<open>
  The loop over the join list. \<open>js\<close> stands for \<^verbatim>\<open>JSON.stringify\<close> on an item, whose
  output depends on the item's property order.
\<close>

fun joinLoop ::
  "(rat \<Rightarrow> string) \<Rightarrow> (JoinItem \<Rightarrow> string) \<Rightarrow> PDFDocument list \<Rightarrow> JoinItem list \<Rightarrow> outpage list
     \<Rightarrow> exn + outpage list"
where
  "joinLoop fmt js loadedPdfs [] out = Inr out"
| "joinLoop fmt js loadedPdfs (item # rest) out =
     (if blank item = Some True then joinLoop fmt js loadedPdfs rest (out @ [BlankPage])
      else
        (case pdf item of
           None \<Rightarrow> Inl (Error ''Invalid joinList entry: missing or invalid 'pdf' index'')
         | Some pdfNum \<Rightarrow>
             if num_lt pdfNum (ofNat 0) then
               Inl (Error ''Invalid joinList entry: missing or invalid 'pdf' index'')
             else
               (case page item of
                  None \<Rightarrow> Inl (Error (''Missing 'page' in joinList entry: '' @ js item))
                | Some pg \<Rightarrow>
                    (case arrGet loadedPdfs pdfNum of
                       None \<Rightarrow>
                         Inl (TypeError ''Cannot read properties of undefined (reading 'getPageCount')'')
                     | Some srcPdf \<Rightarrow>
                         (case parsePages pg of
                            Inl e \<Rightarrow> Inl e
                          | Inr pagesToCopy \<Rightarrow>
                              (case copyLoop fmt pdfNum srcPdf pagesToCopy out of
                                 Inl e \<Rightarrow> Inl e
                               | Inr out' \<Rightarrow> joinLoop fmt js loadedPdfs rest out'))))))"

text \<open>\<^verbatim>\<open>join\<close>: the value returned stands for the bytes of \<^verbatim>\<open>outPdf.save()\<close>.\<close>

definition join ::
  "(rat \<Rightarrow> string) \<Rightarrow> (JoinItem \<Rightarrow> string) \<Rightarrow> loader \<Rightarrow> string list \<Rightarrow> JoinItem list
     \<Rightarrow> exn + outpage list"
where
  "join fmt js ld pdfs joinList =
     (case loadLoop ld pdfs [] of
        Inl e \<Rightarrow> Inl e
      | Inr loadedPdfs \<Rightarrow>
          (case joinLoop fmt js loadedPdfs joinList [] of
             Inl e \<Rightarrow> Inl e
           | Inr out \<Rightarrow> Inr (save out)))"

section \<open>join-pdf.ts: testList\<close>

text \<open>\<^verbatim>\<open>usageMap[pageNum] = (usageMap[pageNum] || 0) + 1\<close>.\<close>

definition bumpUsage :: "UsageRec \<Rightarrow> number \<Rightarrow> UsageRec" where
  "bumpUsage u pageNum =
     u\<lparr>usedPages := (usedPages u)(pageNum \<mapsto> (case usedPages u pageNum of None \<Rightarrow> 0 | Some c \<Rightarrow> c) + 1)\<rparr>"

text \<open>
  The loop over the parsed pages of entry \<open>i\<close>. Reading \<^verbatim>\<open>.usedPages\<close> of
  \<^verbatim>\<open>result.usage[pdfIndex]\<close> raises a TypeError when that element is undefined.
\<close>

fun pagesCheck ::
  "(rat \<Rightarrow> string) \<Rightarrow> nat \<Rightarrow> number \<Rightarrow> nat \<Rightarrow> number list \<Rightarrow> TestResult \<Rightarrow> exn + TestResult"
where
  "pagesCheck fmt i pdfIndex tot [] result = Inr result"
| "pagesCheck fmt i pdfIndex tot (pageNum # rest) result =
     (if num_lt pageNum (ofNat 1) \<or> num_gt pageNum (ofNat tot) then
        pagesCheck fmt i pdfIndex tot rest
          (result\<lparr>errors := errors result @
             [''Entry #'' @ show_nat i @ '': pdf['' @ numberToString fmt pdfIndex @ ''] has no page ''
                @ numberToString fmt pageNum @ '' (max '' @ show_nat tot @ '')'']\<rparr>)
      else
        (case arrIndex pdfIndex of
           None \<Rightarrow> Inl (TypeError ''Cannot read properties of undefined (reading 'usedPages')'')
         | Some k \<Rightarrow>
             if k < length (usage result) then
               pagesCheck fmt i pdfIndex tot rest
                 (result\<lparr>usage := (usage result)[k := bumpUsage (usage result ! k) pageNum]\<rparr>)
             else Inl (TypeError ''Cannot read properties of undefined (reading 'usedPages')'')))"

text \<open>The callback given to \<^verbatim>\<open>joinList.forEach\<close>, for the item at position \<open>i\<close>.\<close>

definition testEntry ::
  "(rat \<Rightarrow> string) \<Rightarrow> PdfInfo list \<Rightarrow> nat \<Rightarrow> JoinItem \<Rightarrow> TestResult \<Rightarrow> exn + TestResult"
where
  "testEntry fmt info i item result =
     (if blank item = Some True then Inr result
      else
        (case pdf item of
           None \<Rightarrow>
             Inr (result\<lparr>errors := errors result @
                    [''Entry #'' @ show_nat i @ '': invalid or missing 'pdf' index'']\<rparr>)
         | Some pdfIndex \<Rightarrow>
             if num_lt pdfIndex (ofNat 0) then
               Inr (result\<lparr>errors := errors result @
                      [''Entry #'' @ show_nat i @ '': invalid or missing 'pdf' index'']\<rparr>)
             else
               (case page item of
                  None \<Rightarrow>
                    Inr (result\<lparr>errors := errors result @
                           [''Entry #'' @ show_nat i @ '': missing 'page' value'']\<rparr>)
                | Some pg \<Rightarrow>
                    (let tot = (case arrGet info pdfIndex of None \<Rightarrow> 0 | Some d \<Rightarrow> pages d)
                     in case parsePages pg of
                          Inl err \<Rightarrow>
                            Inr (result\<lparr>errors := errors result @
                                   [''Entry #'' @ show_nat i @ '': '' @ message err]\<rparr>)
                        | Inr ps \<Rightarrow> pagesCheck fmt i pdfIndex tot ps result))))"

text \<open>\<^verbatim>\<open>forEach\<close>: the callback on every item in order, with its index; an exception ends it.\<close>

fun forEachEntry ::
  "(rat \<Rightarrow> string) \<Rightarrow> PdfInfo list \<Rightarrow> nat \<Rightarrow> JoinItem list \<Rightarrow> TestResult \<Rightarrow> exn + TestResult"
where
  "forEachEntry fmt info i [] result = Inr result"
| "forEachEntry fmt info i (item # rest) result =
     (case testEntry fmt info i item result of
        Inl e \<Rightarrow> Inl e
      | Inr result' \<Rightarrow> forEachEntry fmt info (Suc i) rest result')"

text \<open>The result object \<^verbatim>\<open>testList\<close> starts from: no errors, one empty usage record per file.\<close>

definition initialResult :: "string list \<Rightarrow> PdfInfo list \<Rightarrow> TestResult" where
  "initialResult pdfs info =
     \<lparr>errors = [],
      usage = map (\<lambda>(f, idx). \<lparr>ufile = f, totalPages = pages (info ! idx), usedPages = Map.empty\<rparr>)
                (zip pdfs [0..<length pdfs])\<rparr>"

definition testList ::
  "(rat \<Rightarrow> string) \<Rightarrow> loader \<Rightarrow> string list \<Rightarrow> JoinItem list \<Rightarrow> exn + TestResult"
where
  "testList fmt ld pdfs joinList =
     (case listPdfs ld pdfs of
        Inl e \<Rightarrow> Inl e
      | Inr info \<Rightarrow> forEachEntry fmt info 0 joinList (initialResult pdfs info))"

section \<open>cli.ts: the inline page definition\<close>

text \<open>
  \<^verbatim>\<open>parsePagesArg\<close>, of the command-line module that has the \<^verbatim>\<open>--pages\<close> option.
\<close>




text \<open>
  The match of \<^verbatim>\<open>/^(\d+):([\d]+(?:-[\d]+)?)$/\<close>, returning the two groups; the second
  group is everything after the colon.
\<close>

definition matchToken :: "string \<Rightarrow> (string \<times> string) option" where
  "matchToken t =
     (let g1 = takeWhile is_digit t
      in case dropWhile is_digit t of
           [] \<Rightarrow> None
         | c # g2 \<Rightarrow>
             if g1 \<noteq> [] \<and> c = CHR '':'' \<and> takeWhile is_digit g2 \<noteq> [] then
               (case dropWhile is_digit g2 of
                  [] \<Rightarrow> Some (g1, g2)
                | c' # r \<Rightarrow>
                    if c' = CHR ''-'' \<and> r \<noteq> [] \<and> list_all is_digit r then Some (g1, g2) else None)
             else None)"




section \<open>Example inputs\<close>

text \<open>
  The files of the README: \<^verbatim>\<open>a.pdf\<close> with 12 pages and \<^verbatim>\<open>b.pdf\<close> with 7; no other file
  exists. \<open>sampleFmt\<close> prints the two fractions the examples use, \<open>sampleJson\<close> an item.
\<close>

definition sampleLoader :: loader where
  "sampleLoader f =
     (if f = ''a.pdf'' then Inr 12
      else if f = ''b.pdf'' then Inr 7
      else Inl (Error ''ENOENT: no such file or directory''))"

definition sampleFmt :: "rat \<Rightarrow> string" where
  "sampleFmt r = (if r = 1 / 2 then ''0.5'' else if r = 3 / 2 then ''1.5'' else ''?'')"

definition sampleJson :: "JoinItem \<Rightarrow> string" where
  "sampleJson item = ''{}''"

definition pageRef :: "number \<Rightarrow> pagespec \<Rightarrow> JoinItem" where
  "pageRef n pg = \<lparr>pdf = Some n, page = Some pg, blank = None\<rparr>"




text \<open>The two documents as \<open>join\<close> loads them.\<close>

definition sampleDocs :: "PDFDocument list" where
  "sampleDocs = [\<lparr>source = ''a.pdf'', pageCount = 12\<rparr>, \<lparr>source = ''b.pdf'', pageCount = 7\<rparr>]"

section \<open>Specification-level notions\<close>


text \<open>
  The bounds test both loops apply to a page number, \<^verbatim>\<open>pageNum < 1 || pageNum > total\<close>.
\<close>

definition outOfRange :: "number \<Rightarrow> nat \<Rightarrow> bool" where
  "outOfRange p tot = (num_lt p (ofNat 1) \<or> num_gt p (ofNat tot))"






text \<open>The exception the assembler raises for an out-of-range page.\<close>

definition rangeError :: "(rat \<Rightarrow> string) \<Rightarrow> number \<Rightarrow> number \<Rightarrow> nat \<Rightarrow> exn" where
  "rangeError fmt p n tot =
     Error (''joinList requests page '' @ numberToString fmt p @ '' from pdf[''
            @ numberToString fmt n @ ''] which has only '' @ show_nat tot @ '' pages'')"

text \<open>A page number of the document: a finite number from 1 to the page count.\<close>

definition inRange :: "number \<Rightarrow> nat \<Rightarrow> bool" where
  "inRange p tot = (case p of Fin r \<Rightarrow> 1 \<le> r \<and> r \<le> of_nat tot | _ \<Rightarrow> False)"

text \<open>\<^verbatim>\<open>info[pdfIndex]?.pages ?? 0\<close>, the page count the validator checks against.\<close>

definition docTotal :: "PdfInfo list \<Rightarrow> number \<Rightarrow> nat" where
  "docTotal info n = (case arrGet info n of None \<Rightarrow> 0 | Some d \<Rightarrow> pages d)"

text \<open>The validator's message for an out-of-range page, and the result with one more message.\<close>

definition pageError :: "(rat \<Rightarrow> string) \<Rightarrow> nat \<Rightarrow> number \<Rightarrow> nat \<Rightarrow> number \<Rightarrow> string" where
  "pageError fmt i n tot p =
     ''Entry #'' @ show_nat i @ '': pdf['' @ numberToString fmt n @ ''] has no page ''
       @ numberToString fmt p @ '' (max '' @ show_nat tot @ '')''"

definition addError :: "TestResult \<Rightarrow> string \<Rightarrow> TestResult" where
  "addError result e = result\<lparr>errors := errors result @ [e]\<rparr>"

text \<open>
  A malformed entry: not a blank marker, and its \<open>pdf\<close> is missing or below 0, or its
  \<open>page\<close> is missing or does not parse.
\<close>

definition malformed :: "JoinItem \<Rightarrow> bool" where
  "malformed item =
     (blank item \<noteq> Some True \<and>
      (case pdf item of
         None \<Rightarrow> True
       | Some n \<Rightarrow>
           num_lt n (ofNat 0) \<or>
           (case page item of
              None \<Rightarrow> True
            | Some pg \<Rightarrow> (case parsePages pg of Inl e \<Rightarrow> True | Inr ps \<Rightarrow> False))))"



definition digitString :: "string \<Rightarrow> bool" where
  "digitString s \<longleftrightarrow> s \<noteq> [] \<and> list_all is_digit s"

definition tokenShape :: "string \<Rightarrow> string \<Rightarrow> string \<Rightarrow> bool" where
  "tokenShape t a b \<longleftrightarrow>
     t = a @ '':'' @ b \<and> digitString a \<and>
     (digitString b \<or> (\<exists>d1 d2. b = d1 @ ''-'' @ d2 \<and> digitString d1 \<and> digitString d2))"





section \<open>Digits, white space and decimal numerals\<close>





lemma hyphen_not_digit: "\<not> is_digit (CHR ''-'')"
  by (simp add: is_digit_def)







lemma takeWhile_stop: "list_all P xs \<Longrightarrow> \<not> P y \<Longrightarrow> takeWhile P (xs @ y # ys) = xs"
  by (induction xs) auto

lemma dropWhile_stop: "list_all P xs \<Longrightarrow> \<not> P y \<Longrightarrow> dropWhile P (xs @ y # ys) = y # ys"
  by (induction xs) auto

lemma takeWhile_all: "list_all P xs \<Longrightarrow> takeWhile P xs = xs"
  by (induction xs) auto

lemma dropWhile_all: "list_all P xs \<Longrightarrow> dropWhile P xs = []"
  by (induction xs) auto


section \<open>Rounding to doubles\<close>






lemma num_le_ofNat [simp]: "num_le (ofNat a) (ofNat b) \<longleftrightarrow> a \<le> b"
  by (simp add: ofNat_def)

lemma num_gt_ofNat [simp]: "num_gt (ofNat a) (ofNat b) \<longleftrightarrow> b < a"
  by (simp add: ofNat_def num_gt_def)






section \<open>Properties of the page-range parser\<close>













text \<open>What a successful parse returns.\<close>

lemma parsePages_num: "parsePages (PNum n) = Inr [n]"
  by (simp add: parsePages_def)

lemma pagesLoop_pages:
  "pagesLoop p e acc = Inr r \<Longrightarrow> x \<in> set r \<Longrightarrow> x \<in> set acc \<or> num_le x e"
proof (induction p e acc rule: pagesLoop.induct)
  case (1 p e acc)
  show ?case
  proof (cases "num_le p e \<and> length acc < maxArrayLength")
    case True
    then have "pagesLoop (increment p) e (acc @ [p]) = Inr r"
      using "1.prems"(1) by (subst (asm) pagesLoop.simps) simp
    from "1.IH" [OF _ _ this "1.prems"(2)] True show ?thesis
      by auto
  next
    case False
    then show ?thesis
      using "1.prems" by (subst (asm) pagesLoop.simps) (auto split: if_splits)
  qed
qed

lemma parsePages_no_nan: "parsePages (PStr s) = Inr ps \<Longrightarrow> NaN \<notin> set ps"
proof
  assume "parsePages (PStr s) = Inr ps" "NaN \<in> set ps"
  then obtain p e where "pagesLoop p e [] = Inr ps"
    by (auto simp: parsePages_def Let_def split: option.splits if_splits)
  from pagesLoop_pages [OF this \<open>NaN \<in> set ps\<close>] show False
    by simp
qed




section \<open>The assembler\<close>








lemma copyLoop_append:
  "copyLoop fmt n d (ps1 @ ps2) out =
     (case copyLoop fmt n d ps1 out of Inl e \<Rightarrow> Inl e | Inr out' \<Rightarrow> copyLoop fmt n d ps2 out')"
  by (induction ps1 arbitrary: out) (simp_all split: sum.splits)

lemma joinLoop_append:
  "joinLoop fmt js docs (xs @ ys) out =
     (case joinLoop fmt js docs xs out of Inl e \<Rightarrow> Inl e | Inr out' \<Rightarrow> joinLoop fmt js docs ys out')"
  by (induction xs arbitrary: out) (simp_all split: sum.splits option.splits)


text \<open>
  The assembler's error for a page number below 1 or above the page count, reached after
  entries and page numbers that were processed without an exception: the entries that
  follow play no part.
\<close>

lemma join_range_error:
  assumes "loadLoop ld pdfs [] = Inr docs"
    and "joinLoop fmt js docs pre [] = Inr out"
    and "blank item \<noteq> Some True" "pdf item = Some n" "\<not> num_lt n (ofNat 0)"
    and "page item = Some pg" "arrGet docs n = Some d" "parsePages pg = Inr (ps1 @ p # ps2)"
    and "copyLoop fmt n d ps1 out = Inr out'" "outOfRange p (pageCount d)"
  shows "join fmt js ld pdfs (pre @ item # post) = Inl (rangeError fmt p n (pageCount d))"
proof -
  have "copyLoop fmt n d (ps1 @ p # ps2) out = Inl (rangeError fmt p n (pageCount d))"
    using assms(9,10) by (simp add: copyLoop_append outOfRange_def rangeError_def)
  then have "joinLoop fmt js docs (item # post) out = Inl (rangeError fmt p n (pageCount d))"
    using assms(3-8) by simp
  then show ?thesis
    using assms(1,2) by (simp add: join_def joinLoop_append del: joinLoop.simps)
qed




lemma sample_docs: "loadLoop sampleLoader [''a.pdf'', ''b.pdf''] [] = Inr sampleDocs"
  by (simp add: sampleLoader_def sampleDocs_def)




lemma floor_half: "\<lfloor>1 / 2 :: rat\<rfloor> = 0"
  by (rule floor_unique) simp_all

lemma arrIndex_half: "arrIndex (Fin (1 / 2)) = None"
  by (simp add: arrIndex_def floor_half)


text \<open>
  Claim C3, where the program departs from it. The page NaN is no page of the 12-page
  document, but NaN is neither below 1 nor above 12: the bounds test lets it through and
  \<open>join\<close> asks the library for the page at index NaN. It ends in the library's TypeError,
  not in the error that names the pdf index, the page and the page count.
\<close>

theorem nan_page_reaches_library:
  "join sampleFmt sampleJson sampleLoader [''a.pdf'', ''b.pdf'']
     [pageRef (Fin 0) (PNum NaN), pageRef (Fin 0) (PNum (Fin 1))] =
     Inl (TypeError ''Cannot read properties of undefined (reading 'node')'')"
  unfolding join_def sample_docs
  by (simp add: sampleDocs_def pageRef_def arrGet_def arrIndex_def
      parsePages_num num_gt_def ofNat_def copyPages_def)



section \<open>The validator\<close>

lemma inRange_not_out: "inRange p tot \<Longrightarrow> \<not> outOfRange p tot"
  by (cases p) (auto simp: inRange_def outOfRange_def num_gt_def ofNat_def)

lemma not_out_inRange: "p \<noteq> NaN \<Longrightarrow> \<not> outOfRange p tot \<Longrightarrow> inRange p tot"
  by (cases p) (auto simp: inRange_def outOfRange_def num_gt_def ofNat_def)

lemma inRange_doc_exists:
  assumes "inRange p (docTotal info n)"
  shows "\<exists>k. arrIndex n = Some k \<and> k < length info"
proof -
  from assms have "docTotal info n \<noteq> 0"
    by (cases p) (auto simp: inRange_def)
  then show ?thesis
    by (auto simp: docTotal_def arrGet_def split: option.splits if_splits)
qed

lemma testEntry_page_ref:
  assumes "blank item \<noteq> Some True" "pdf item = Some n" "\<not> num_lt n (ofNat 0)" "page item = Some pg"
  shows "testEntry fmt info i item result =
    (case parsePages pg of
       Inl err \<Rightarrow> Inr (addError result (''Entry #'' @ show_nat i @ '': '' @ message err))
     | Inr ps \<Rightarrow> pagesCheck fmt i n (docTotal info n) ps result)"
  using assms by (simp add: testEntry_def docTotal_def addError_def split: sum.splits)

text \<open>
  Claim C2, as the program has it. For a non-blank entry whose \<open>pdf\<close> is missing or is a
  number below 0, the validator's callback appends exactly the message
  "Entry #i: invalid or missing 'pdf' index" and changes nothing else (no usage), and
  \<open>forEach\<close> goes on with the next entry. A non-negative number that is not an integer
  does not take this branch: it addresses no document, so the entry's pages are checked
  against a page count of 0.
\<close>

theorem invalid_pdf_reported:
  "(blank item \<noteq> Some True \<and> (pdf item = None \<or> (\<exists>n. pdf item = Some n \<and> num_lt n (ofNat 0))) \<longrightarrow>
      testEntry fmt info i item result =
        Inr (result\<lparr>errors := errors result @
               [''Entry #'' @ show_nat i @ '': invalid or missing 'pdf' index'']\<rparr>) \<and>
      forEachEntry fmt info i (item # rest) result =
        forEachEntry fmt info (Suc i) rest
          (result\<lparr>errors := errors result @
             [''Entry #'' @ show_nat i @ '': invalid or missing 'pdf' index'']\<rparr>)) \<and>
   (blank item \<noteq> Some True \<and> pdf item = Some (Fin r) \<and> 0 \<le> r \<and> of_int \<lfloor>r\<rfloor> \<noteq> r \<and>
    page item = Some pg \<and> parsePages pg = Inr ps \<longrightarrow>
      docTotal info (Fin r) = 0 \<and>
      testEntry fmt info i item result = pagesCheck fmt i (Fin r) 0 ps result)"
  by (auto simp: testEntry_def docTotal_def arrGet_def arrIndex_def ofNat_def)

theorem invalid_pdf_reported_witness:
  "testEntry sampleFmt [] 3 \<lparr>pdf = None, page = Some (PNum (Fin 1)), blank = None\<rparr> \<lparr>errors = [], usage = []\<rparr> =
     Inr \<lparr>errors = [''Entry #3: invalid or missing 'pdf' index''], usage = []\<rparr> \<and>
   testEntry sampleFmt [] 3 (pageRef (Fin (- 1)) (PNum (Fin 1))) \<lparr>errors = [], usage = []\<rparr> =
     Inr \<lparr>errors = [''Entry #3: invalid or missing 'pdf' index''], usage = []\<rparr> \<and>
   testEntry sampleFmt [] 3 (pageRef (Fin (1 / 2)) (PNum (Fin 1))) \<lparr>errors = [], usage = []\<rparr> =
     pagesCheck sampleFmt 3 (Fin (1 / 2)) 0 [Fin 1] \<lparr>errors = [], usage = []\<rparr>"
proof -
  have s: "show_nat 3 = ''3''"
    by (simp add: show_nat.simps digit_char_def)
  have p: "parsePages (PNum (Fin 1)) = Inr [Fin 1]"
    by (rule parsePages_num)
  have 1: "testEntry sampleFmt [] 3 \<lparr>pdf = None, page = Some (PNum (Fin 1)), blank = None\<rparr> \<lparr>errors = [], usage = []\<rparr> =
     Inr \<lparr>errors = [''Entry #3: invalid or missing 'pdf' index''], usage = []\<rparr>"
    using invalid_pdf_reported [of "\<lparr>pdf = None, page = Some (PNum (Fin 1)), blank = None\<rparr>" sampleFmt "[]" 3
        "\<lparr>errors = [], usage = []\<rparr>"]
    by (simp add: s)
  have 2: "testEntry sampleFmt [] 3 (pageRef (Fin (- 1)) (PNum (Fin 1))) \<lparr>errors = [], usage = []\<rparr> =
     Inr \<lparr>errors = [''Entry #3: invalid or missing 'pdf' index''], usage = []\<rparr>"
    using invalid_pdf_reported [of "pageRef (Fin (- 1)) (PNum (Fin 1))" sampleFmt "[]" 3
        "\<lparr>errors = [], usage = []\<rparr>"]
    by (simp add: s pageRef_def ofNat_def)
  have 3: "testEntry sampleFmt [] 3 (pageRef (Fin (1 / 2)) (PNum (Fin 1))) \<lparr>errors = [], usage = []\<rparr> =
     pagesCheck sampleFmt 3 (Fin (1 / 2)) 0 [Fin 1] \<lparr>errors = [], usage = []\<rparr>"
    using invalid_pdf_reported [of "pageRef (Fin (1 / 2)) (PNum (Fin 1))" sampleFmt "[]" 3
        "\<lparr>errors = [], usage = []\<rparr>" "[]" "1 / 2" "PNum (Fin 1)" "[Fin 1]"] p
    by (simp add: pageRef_def floor_half)
  from 1 2 3 show ?thesis
    by blast
qed

text \<open>
  Claim C2 as stated fails for the \<open>pdf\<close> value 0.5: the validator reports page 1 as out of
  range for \<open>pdf[0.5]\<close>, not an invalid \<open>pdf\<close> index.
\<close>

theorem fractional_pdf_counterexample:
  "testList sampleFmt sampleLoader [''a.pdf'', ''b.pdf''] [pageRef (Fin (1 / 2)) (PNum (Fin 1))] =
     Inr \<lparr>errors = [''Entry #0: pdf[0.5] has no page 1 (max 0)''],
          usage = [\<lparr>ufile = ''a.pdf'', totalPages = 12, usedPages = Map.empty\<rparr>,
                   \<lparr>ufile = ''b.pdf'', totalPages = 7, usedPages = Map.empty\<rparr>]\<rparr> \<and>
   ''Entry #0: pdf[0.5] has no page 1 (max 0)'' \<noteq> ''Entry #0: invalid or missing 'pdf' index''"
proof -
  have s: "show_nat 0 = ''0''" "show_nat (Suc 0) = ''1''"
    by (simp_all add: show_nat.simps digit_char_def)
  show ?thesis
    by (simp add: testList_def listPdfs_def sampleLoader_def initialResult_def upt_rec testEntry_def
        pageRef_def ofNat_def arrGet_def arrIndex_half parsePages_num num_gt_def floor_half
        sampleFmt_def s)
qed

text \<open>
  The same holds for the \<open>pdf\<close> values Infinity and NaN: neither is below 0 and neither
  addresses a document.
\<close>

lemma non_finite_pdf_not_reported:
  assumes "blank item \<noteq> Some True" "pdf item = Some n" "n = PInf \<or> n = NaN"
    and "page item = Some pg" "parsePages pg = Inr ps"
  shows "docTotal info n = 0 \<and> testEntry fmt info i item result = pagesCheck fmt i n 0 ps result"
  using assms by (auto simp: testEntry_def docTotal_def arrGet_def arrIndex_def ofNat_def)

text \<open>
  Claim C7, where the program departs from it. For the entry with \<open>pdf\<close> 5 (no such
  document among two) and page NaN, the page count is taken as 0, but NaN is neither below
  1 nor above 0, so the bounds check lets it through and the validator reads
  \<^verbatim>\<open>result.usage[5].usedPages\<close>: \<open>testList\<close> raises a TypeError.
\<close>

theorem nan_page_crashes_validator:
  "testList sampleFmt sampleLoader [''a.pdf'', ''b.pdf''] [pageRef (Fin 5) (PNum NaN)] =
     Inl (TypeError ''Cannot read properties of undefined (reading 'usedPages')'')"
  by (simp add: testList_def listPdfs_def sampleLoader_def initialResult_def upt_rec testEntry_def
      pageRef_def ofNat_def arrGet_def arrIndex_def parsePages_num num_gt_def)


lemma bumpUsage_at:
  "usedPages (bumpUsage u p) p = Some ((case usedPages u p of None \<Rightarrow> 0 | Some c \<Rightarrow> c) + 1)"
  by (simp add: bumpUsage_def)

lemma bumpUsage_other: "q \<noteq> p \<Longrightarrow> usedPages (bumpUsage u p) q = usedPages u q"
  by (simp add: bumpUsage_def)

lemma pagesCheck_out:
  "outOfRange p tot \<Longrightarrow>
   pagesCheck fmt i n tot (p # rest) result =
     pagesCheck fmt i n tot rest (addError result (pageError fmt i n tot p))"
  by (simp add: outOfRange_def addError_def pageError_def)

lemma pagesCheck_in:
  "\<not> outOfRange p tot \<Longrightarrow> arrIndex n = Some k \<Longrightarrow> k < length (usage result) \<Longrightarrow>
   pagesCheck fmt i n tot (p # rest) result =
     pagesCheck fmt i n tot rest (result\<lparr>usage := (usage result)[k := bumpUsage (usage result ! k) p]\<rparr>)"
  by (simp add: outOfRange_def)






section \<open>The usage histogram of one entry\<close>

text \<open>
  The whole loop over the page numbers of an entry whose document exists: one message per
  page number out of range, in order, and the document's usage record bumped once per
  other page number, so that a page number's count rises by the number of times it occurs
  (repeated references and range expansions alike).
\<close>

lemma pagesCheck_result:
  assumes "arrIndex n = Some k" "k < length (usage result)"
  shows "pagesCheck fmt i n tot ps result =
           Inr (result\<lparr>errors := errors result @ map (pageError fmt i n tot) (filter (\<lambda>p. outOfRange p tot) ps),
                       usage := (usage result)
                         [k := foldl bumpUsage (usage result ! k) (filter (\<lambda>p. \<not> outOfRange p tot) ps)]\<rparr>)"
  using assms(2)
proof (induction ps arbitrary: result)
  case Nil
  then show ?case by simp
next
  case (Cons p ps)
  show ?case
  proof (cases "outOfRange p tot")
    case True
    then show ?thesis
      using Cons.IH [of "addError result (pageError fmt i n tot p)"] Cons.prems
      by (simp add: pagesCheck_out addError_def del: pagesCheck.simps)
  next
    case False
    then show ?thesis
      using Cons.IH [of "result\<lparr>usage := (usage result)[k := bumpUsage (usage result ! k) p]\<rparr>"]
        Cons.prems assms(1)
      by (simp add: pagesCheck_in del: pagesCheck.simps)
  qed
qed

lemma usedPages_foldl_bump:
  "usedPages (foldl bumpUsage u qs) p =
     (if p \<in> set qs
      then Some ((case usedPages u p of None \<Rightarrow> 0 | Some c \<Rightarrow> c) + count_list qs p)
      else usedPages u p)"
proof (induction qs arbitrary: u)
  case Nil
  then show ?case by simp
next
  case (Cons q qs)
  show ?case
  proof (cases "p = q")
    case True
    show ?thesis
      unfolding True using Cons.IH [of "bumpUsage u q", unfolded True]
      by (simp add: bumpUsage_at)
  next
    case False
    then show ?thesis
      using Cons.IH [of "bumpUsage u q"] by (simp add: bumpUsage_other)
  qed
qed

text \<open>
  The same for the callback as a whole, on an entry that parses and has no NaN among its
  page numbers: a page number is then either a page number of the document or out of
  range.
\<close>

lemma out_iff_not_inRange: "p \<noteq> NaN \<Longrightarrow> outOfRange p tot \<longleftrightarrow> \<not> inRange p tot"
  using inRange_not_out not_out_inRange by blast

lemma testEntry_histogram:
  assumes "blank item \<noteq> Some True" "pdf item = Some n" "\<not> num_lt n (ofNat 0)"
    and "page item = Some pg" "parsePages pg = Inr ps" "NaN \<notin> set ps"
    and "arrIndex n = Some k" "k < length (usage result)"
  shows "testEntry fmt info i item result =
           Inr (result\<lparr>errors := errors result @
                         map (pageError fmt i n (docTotal info n))
                           (filter (\<lambda>p. \<not> inRange p (docTotal info n)) ps),
                       usage := (usage result)
                         [k := foldl bumpUsage (usage result ! k)
                                 (filter (\<lambda>p. inRange p (docTotal info n)) ps)]\<rparr>)"
proof -
  have a: "filter (\<lambda>p. outOfRange p (docTotal info n)) ps =
      filter (\<lambda>p. \<not> inRange p (docTotal info n)) ps"
    using assms(6) by (intro filter_cong) (auto dest: inRange_not_out intro: not_out_inRange)
  have b: "filter (\<lambda>p. \<not> outOfRange p (docTotal info n)) ps =
      filter (\<lambda>p. inRange p (docTotal info n)) ps"
    using assms(6) by (intro filter_cong) (auto dest: inRange_not_out intro: not_out_inRange)
  show ?thesis
    using assms(1-5) pagesCheck_result [OF assms(7,8), of fmt i "docTotal info n" ps]
    by (simp add: testEntry_page_ref a b)
qed

text \<open>
  Claim C5, where the program departs from it. The page NaN is no page of the 12-page
  document, but NaN is neither below 1 nor above 12: the bounds test lets it through, and
  the validator records one use of the page NaN and no error, where the claim has the
  message that the document has no such page.
\<close>

theorem nan_page_counted_as_used:
  "testList sampleFmt sampleLoader [''a.pdf'', ''b.pdf''] [pageRef (Fin 0) (PNum NaN)] =
     Inr \<lparr>errors = [],
          usage = [\<lparr>ufile = ''a.pdf'', totalPages = 12, usedPages = [NaN \<mapsto> 1]\<rparr>,
                   \<lparr>ufile = ''b.pdf'', totalPages = 7, usedPages = Map.empty\<rparr>]\<rparr>"
  by (simp add: testList_def listPdfs_def sampleLoader_def initialResult_def upt_rec testEntry_def
      pageRef_def ofNat_def arrGet_def arrIndex_def parsePages_num num_gt_def bumpUsage_def)

section \<open>A page given as a number\<close>






section \<open>The validator on lists without a NaN page\<close>

lemma addError_simps [simp]:
  "errors (addError r e) = errors r @ [e]" "usage (addError r e) = usage r"
  by (simp_all add: addError_def)

text \<open>
  An entry whose \<open>pdf\<close> index addresses no document: every page number other than NaN is
  reported as out of range against a page count of 0, and nothing is raised.
\<close>

lemma pagesCheck_all_out:
  "list_all (\<lambda>p. outOfRange p tot) ps \<Longrightarrow>
   pagesCheck fmt i n tot ps result =
     Inr (result\<lparr>errors := errors result @ map (pageError fmt i n tot) ps\<rparr>)"
proof (induction ps arbitrary: result)
  case Nil
  then show ?case by simp
next
  case (Cons p ps)
  then show ?case
    by (simp add: pagesCheck_out addError_def del: pagesCheck.simps)
qed

lemma not_nan_out_zero: "p \<noteq> NaN \<Longrightarrow> outOfRange p 0"
  by (cases p) (auto simp: outOfRange_def num_gt_def ofNat_def)

lemma missing_document_pages_rejected:
  assumes "blank item \<noteq> Some True" "pdf item = Some n" "\<not> num_lt n (ofNat 0)"
    and "page item = Some pg" "parsePages pg = Inr ps" "arrGet info n = None" "NaN \<notin> set ps"
  shows "testEntry fmt info i item result =
           Inr (result\<lparr>errors := errors result @ map (pageError fmt i n 0) ps\<rparr>)"
proof -
  have z: "docTotal info n = 0"
    using assms(6) by (simp add: docTotal_def)
  have "list_all (\<lambda>p. outOfRange p 0) ps"
    using assms(7) by (auto simp: list_all_iff intro: not_nan_out_zero)
  then show ?thesis
    using assms(1-5) by (simp add: testEntry_page_ref z pagesCheck_all_out)
qed

text \<open>
  The validator as a whole: when the sources load and no entry has the page NaN,
  \<open>testList\<close> returns a result.
\<close>

lemma pagesCheck_length:
  "pagesCheck fmt i n tot ps result = Inr r \<Longrightarrow> length (usage r) = length (usage result)"
proof (induction ps arbitrary: result)
  case Nil
  then show ?case by simp
next
  case (Cons p ps)
  show ?case
  proof (cases "outOfRange p tot")
    case True
    with Cons.prems have "pagesCheck fmt i n tot ps (addError result (pageError fmt i n tot p)) = Inr r"
      by (simp add: pagesCheck_out del: pagesCheck.simps)
    from Cons.IH [OF this] show ?thesis by simp
  next
    case False
    with Cons.prems obtain k where k: "arrIndex n = Some k" "k < length (usage result)"
      by (auto simp: outOfRange_def split: option.splits if_splits)
    with False Cons.prems have
      "pagesCheck fmt i n tot ps (result\<lparr>usage := (usage result)[k := bumpUsage (usage result ! k) p]\<rparr>) = Inr r"
      by (simp add: pagesCheck_in del: pagesCheck.simps)
    from Cons.IH [OF this] show ?thesis by simp
  qed
qed

lemma pagesCheck_total:
  assumes "length (usage result) = length info" "NaN \<notin> set ps"
  shows "\<exists>r. pagesCheck fmt i n (docTotal info n) ps result = Inr r"
  using assms
proof (induction ps arbitrary: result)
  case Nil
  then show ?case by simp
next
  case (Cons p ps)
  show ?case
  proof (cases "outOfRange p (docTotal info n)")
    case True
    then show ?thesis
      using Cons.IH [of "addError result (pageError fmt i n (docTotal info n) p)"] Cons.prems
      by (simp add: pagesCheck_out del: pagesCheck.simps)
  next
    case False
    with Cons.prems have "inRange p (docTotal info n)"
      by (auto intro: not_out_inRange)
    then obtain k where k: "arrIndex n = Some k" "k < length info"
      using inRange_doc_exists by blast
    then show ?thesis
      using False Cons.prems
        Cons.IH [of "result\<lparr>usage := (usage result)[k := bumpUsage (usage result ! k) p]\<rparr>"]
      by (simp add: pagesCheck_in del: pagesCheck.simps)
  qed
qed

lemma testEntry_total:
  assumes "length (usage result) = length info" "page item \<noteq> Some (PNum NaN)"
  shows "\<exists>r. testEntry fmt info i item result = Inr r \<and> length (usage r) = length info"
proof (cases "malformed item \<or> blank item = Some True")
  case True
  then show ?thesis
    using assms(1)
    by (auto simp: malformed_def testEntry_def split: option.splits sum.splits)
next
  case False
  then obtain n pg ps where f: "blank item \<noteq> Some True" "pdf item = Some n" "\<not> num_lt n (ofNat 0)"
    "page item = Some pg" "parsePages pg = Inr ps"
    by (auto simp: malformed_def split: option.splits sum.splits)
  have "NaN \<notin> set ps"
  proof (cases pg)
    case (PNum x)
    with f assms(2) show ?thesis by (auto simp: parsePages_num)
  next
    case (PStr s)
    with f show ?thesis by (auto dest: parsePages_no_nan)
  qed
  from pagesCheck_total [OF assms(1) this] obtain r
    where r: "pagesCheck fmt i n (docTotal info n) ps result = Inr r"
    by blast
  then have "length (usage r) = length info"
    using pagesCheck_length assms(1) by metis
  with r f show ?thesis
    by (simp add: testEntry_page_ref)
qed

lemma forEachEntry_total:
  assumes "length (usage result) = length info" "\<forall>item \<in> set jl. page item \<noteq> Some (PNum NaN)"
  shows "\<exists>r. forEachEntry fmt info i jl result = Inr r"
  using assms
proof (induction jl arbitrary: i result)
  case Nil
  then show ?case by simp
next
  case (Cons item jl)
  then obtain r where "testEntry fmt info i item result = Inr r" "length (usage r) = length info"
    using testEntry_total [of result info item fmt i] by auto
  then show ?case
    using Cons.IH [of r "Suc i"] Cons.prems by simp
qed

lemma listPdfsLoop_length:
  "listPdfsLoop ld pdfs acc = Inr info \<Longrightarrow> length info = length acc + length pdfs"
  by (induction pdfs arbitrary: acc) (auto split: sum.splits)

lemma listPdfs_length: "listPdfs ld pdfs = Inr info \<Longrightarrow> length info = length pdfs"
  using listPdfsLoop_length [of ld pdfs "[]" info] by (simp add: listPdfs_def)

lemma testList_total:
  assumes "listPdfs ld pdfs = Inr info" "\<forall>item \<in> set jl. page item \<noteq> Some (PNum NaN)"
  shows "\<exists>r. testList fmt ld pdfs jl = Inr r"
proof -
  have "length (usage (initialResult pdfs info)) = length info"
    using listPdfs_length [OF assms(1)] by (simp add: initialResult_def)
  from forEachEntry_total [OF this assms(2)] show ?thesis
    using assms(1) by (simp add: testList_def)
qed

section \<open>The inline page definition\<close>




lemma colon_not_digit: "\<not> is_digit (CHR '':'')"
  by (simp add: is_digit_def)

lemma matchToken_intro:
  assumes "tokenShape t a b"
  shows "matchToken t = Some (a, b)"
proof -
  from assms have t: "t = a @ CHR '':'' # b" and a: "a \<noteq> []" "list_all is_digit a"
    by (simp_all add: tokenShape_def digitString_def)
  have t1: "takeWhile is_digit t = a" and d1: "dropWhile is_digit t = CHR '':'' # b"
    unfolding t using a(2) colon_not_digit by (rule takeWhile_stop, rule dropWhile_stop)
  from assms consider (single) "b \<noteq> []" "list_all is_digit b"
    | (range) d1 d2 where "b = d1 @ CHR ''-'' # d2" "d1 \<noteq> []" "d2 \<noteq> []"
        "list_all is_digit d1" "list_all is_digit d2"
    by (auto simp: tokenShape_def digitString_def)
  then show ?thesis
  proof cases
    case single
    then have tb: "takeWhile is_digit b = b" and db: "dropWhile is_digit b = []"
      by (simp_all add: takeWhile_all dropWhile_all)
    show ?thesis
      using single(1) a(1) by (simp add: matchToken_def t1 d1 tb db del: takeWhile_eq_all_conv dropWhile_eq_Nil_conv)
  next
    case range
    have tb: "takeWhile is_digit b = d1" and db: "dropWhile is_digit b = CHR ''-'' # d2"
      unfolding range(1) using range(4) hyphen_not_digit by (rule takeWhile_stop, rule dropWhile_stop)
    show ?thesis
      using range(2,3,5) a(1) by (simp add: matchToken_def t1 d1 tb db)
  qed
qed

lemma matchToken_elim:
  assumes "matchToken t = Some (a, b)"
  shows "tokenShape t a b"
proof -
  from assms obtain c where d: "dropWhile is_digit t = c # b" and a: "a = takeWhile is_digit t" "a \<noteq> []"
    and c: "c = CHR '':''" and b1: "takeWhile is_digit b \<noteq> []"
    and r: "dropWhile is_digit b = [] \<or>
            (\<exists>r. dropWhile is_digit b = CHR ''-'' # r \<and> r \<noteq> [] \<and> list_all is_digit r)"
    by (auto simp: matchToken_def Let_def split: list.splits if_splits)
  have "t = a @ dropWhile is_digit t"
    by (simp add: a)
  then have t: "t = a @ '':'' @ b"
    by (simp add: d c)
  have da: "list_all is_digit a"
    by (auto simp: a list_all_iff dest: set_takeWhileD)
  have b: "b = takeWhile is_digit b @ dropWhile is_digit b"
    by simp
  have db: "list_all is_digit (takeWhile is_digit b)"
    by (auto simp: list_all_iff dest: set_takeWhileD)
  from r show ?thesis
  proof
    assume "dropWhile is_digit b = []"
    with b b1 db have "b \<noteq> []" "list_all is_digit b"
      by auto
    with t a da show ?thesis
      by (simp add: tokenShape_def digitString_def)
  next
    assume "\<exists>r. dropWhile is_digit b = CHR ''-'' # r \<and> r \<noteq> [] \<and> list_all is_digit r"
    then obtain r where r: "dropWhile is_digit b = CHR ''-'' # r" "r \<noteq> []" "list_all is_digit r"
      by blast
    with b have "b = takeWhile is_digit b @ ''-'' @ r"
      by simp
    with b1 db r(2,3) t a(2) da show ?thesis
      unfolding tokenShape_def digitString_def by blast
  qed
qed

lemma matchToken_iff: "matchToken t = Some (a, b) \<longleftrightarrow> tokenShape t a b"
  using matchToken_intro matchToken_elim by blast




























end
